theory Spec2Isabelle
  imports
    Complex_Main
    "HOL-Library.AList"
    "HOL-Library.List_Lexorder"
    "HOL-Library.Char_ord"
    "HOL-Library.Product_Lexorder"
begin

section \<open>Python values and exceptions\<close>

text \<open>
  The exceptions the modelled functions can raise.  The three classes of
  \<^verbatim>\<open>contention.py\<close> carry what the source gives them: \<open>ShortJobError\<close> the
  shortest walltime and the floor its message prints, \<open>JobOverlapError\<close> its message,
  \<open>IncompleteDatasetError\<close> its message and the attributes \<open>primary_nodes\<close> and
  \<open>contention\<close>.
\<close>

datatype py_error =
    ValueError
  | KeyError
  | IndexError
  | AttributeError
  | TypeError
  | ZeroDivisionError
  | ShortJobError rat rat
  | JobOverlapError string
  | IncompleteDatasetError string int string

text \<open>
  A cell of a pandas frame: a number or NaN.  Numbers are exact rationals; the rounding
  of binary64 arithmetic is not modelled.
\<close>

datatype pyfloat = NaN | Num rat

text \<open>\<^verbatim>\<open>str(n)\<close> of an integer, as an f-string prints it.\<close>

fun str_nat :: "nat \<Rightarrow> string" where
  "str_nat n =
     (if n < 10 then [char_of (48 + n)]
      else str_nat (n div 10) @ [char_of (48 + n mod 10)])"

definition str_int :: "int \<Rightarrow> string" where
  "str_int i = (if i < 0 then CHR ''-'' # str_nat (nat (- i)) else str_nat (nat i))"

text \<open>\<^verbatim>\<open>Series.unique()\<close>: the distinct values in order of first appearance.\<close>

fun unique :: "'a list \<Rightarrow> 'a list" where
  "unique [] = []"
| "unique (x # xs) = x # unique (filter (\<lambda>y. y \<noteq> x) xs)"

section \<open>The contention table (\<^verbatim>\<open>contention.py\<close>)\<close>

text \<open>
  One row of the table \<^verbatim>\<open>load_contention_datasets\<close> produces, with the columns
  the overlap calculator and the validator read.  The column \<^verbatim>\<open>end\<close> is the field
  \<open>endtime\<close>.  A table is the list of its rows, in row order.
\<close>

record row =
  dataset_id :: string
  primary_nodes :: int
  contention :: string
  workload_id :: string
  start :: rat
  endtime :: rat

text \<open>
  A series is indexed by \<open>dataset_id\<close>; a frame has an index and keyed columns, each a
  series over that index.
\<close>

type_synonym series = "(string \<times> pyfloat) list"

record 'k frame =
  index :: "string list"
  columns :: "('k \<times> series) list"

definition series_get :: "series \<Rightarrow> string \<Rightarrow> pyfloat" where
  "series_get s ds = (case map_of s ds of None \<Rightarrow> NaN | Some v \<Rightarrow> v)"

fun nums :: "pyfloat list \<Rightarrow> rat list" where
  "nums [] = []"
| "nums (NaN # vs) = nums vs"
| "nums (Num x # vs) = x # nums vs"

text \<open>\<^verbatim>\<open>min\<close> and \<^verbatim>\<open>max\<close> of pandas skip NaN, and are NaN when nothing is left.\<close>

definition nanmin :: "pyfloat list \<Rightarrow> pyfloat" where
  "nanmin vs = (case nums vs of [] \<Rightarrow> NaN | x # xs \<Rightarrow> Num (fold min xs x))"

definition nanmax :: "pyfloat list \<Rightarrow> pyfloat" where
  "nanmax vs = (case nums vs of [] \<Rightarrow> NaN | x # xs \<Rightarrow> Num (fold max xs x))"

definition min_axis1 :: "'k frame \<Rightarrow> series" where
  "min_axis1 f = map (\<lambda>ds. (ds, nanmin (map (\<lambda>(k, s). series_get s ds) (columns f)))) (index f)"

definition max_axis1 :: "'k frame \<Rightarrow> series" where
  "max_axis1 f = map (\<lambda>ds. (ds, nanmax (map (\<lambda>(k, s). series_get s ds) (columns f)))) (index f)"

fun fsub :: "pyfloat \<Rightarrow> pyfloat \<Rightarrow> pyfloat" where
  "fsub (Num a) (Num b) = Num (a - b)"
| "fsub _ _ = NaN"

definition series_sub :: "series \<Rightarrow> series \<Rightarrow> series" where
  "series_sub s t = map (\<lambda>(ds, a). (ds, fsub a (series_get t ds))) s"

text \<open>
  \<^verbatim>\<open>lambda x: max(0.0, x)\<close>. Python's \<^verbatim>\<open>max\<close> keeps its first argument unless
  a later one compares greater, and no comparison with NaN is true.
\<close>

fun clamp0 :: "pyfloat \<Rightarrow> pyfloat" where
  "clamp0 NaN = Num 0"
| "clamp0 (Num x) = Num (max 0 x)"

definition series_apply :: "(pyfloat \<Rightarrow> pyfloat) \<Rightarrow> series \<Rightarrow> series" where
  "series_apply f s = map (\<lambda>(ds, a). (ds, f a)) s"

text \<open>
  \<^verbatim>\<open>pivot_table(index=["dataset_id"], values=["start", "end"],
  columns=["primary_nodes", "contention", "workload_id"])\<close>: the rows are grouped by
  the four keys and each value column is averaged (the default aggregate) over a group.
  The frame has one row per \<open>dataset_id\<close> (sorted) and one column per value column
  (\<^verbatim>\<open>end\<close> before \<^verbatim>\<open>start\<close>) and key triple that some row of the table has
  (sorted); a cell whose group is empty is NaN.
\<close>

definition value_column :: "string \<Rightarrow> row \<Rightarrow> rat" where
  "value_column v = (if v = ''end'' then endtime else start)"

definition group_mean :: "row list \<Rightarrow> string \<Rightarrow> string \<Rightarrow> int \<times> string \<times> string \<Rightarrow> pyfloat" where
  "group_mean df v ds k =
     (let g = filter (\<lambda>r. dataset_id r = ds \<and> (primary_nodes r, contention r, workload_id r) = k) df
      in if g = [] then NaN
         else Num (sum_list (map (value_column v) g) / of_nat (length g)))"

definition pivot_index :: "row list \<Rightarrow> string list" where
  "pivot_index df = sort (remdups (map dataset_id df))"

definition pivot_keys :: "row list \<Rightarrow> (int \<times> string \<times> string) list" where
  "pivot_keys df = sort (remdups (map (\<lambda>r. (primary_nodes r, contention r, workload_id r)) df))"

definition pivot_column :: "row list \<Rightarrow> string \<Rightarrow> int \<times> string \<times> string \<Rightarrow> series" where
  "pivot_column df v k = map (\<lambda>ds. (ds, group_mean df v ds k)) (pivot_index df)"

definition pivot_table :: "row list \<Rightarrow> (string \<times> int \<times> string \<times> string) frame" where
  "pivot_table df =
     \<lparr> index = pivot_index df,
       columns = concat (map (\<lambda>v. map (\<lambda>k. ((v, k), pivot_column df v k)) (pivot_keys df))
                    [''end'', ''start'']) \<rparr>"

text \<open>
  \<^verbatim>\<open>pivoted_df[v, numnode, contention]\<close>: the columns under that prefix, keyed by
  the remaining level \<open>workload_id\<close>; \<open>KeyError\<close> when there is none.
\<close>

definition getitem3 ::
  "(string \<times> int \<times> string \<times> string) frame \<Rightarrow> string \<Rightarrow> int \<Rightarrow> string \<Rightarrow> py_error + string frame" where
  "getitem3 pv v n c =
     (let sel = filter (\<lambda>((v', n', c', w), s). v' = v \<and> n' = n \<and> c' = c) (columns pv)
      in if sel = [] then Inl KeyError
         else Inr \<lparr> index = index pv, columns = map (\<lambda>((v', n', c', w), s). (w, s)) sel \<rparr>)"

text \<open>\<^verbatim>\<open>frame.loc[:, key]\<close>, read and assigned; the assignment aligns the series on the frame's index.\<close>

definition loc_get :: "'k frame \<Rightarrow> 'k \<Rightarrow> py_error + series" where
  "loc_get f k = (case map_of (columns f) k of None \<Rightarrow> Inl KeyError | Some s \<Rightarrow> Inr s)"

definition loc_set :: "'k frame \<Rightarrow> 'k \<Rightarrow> series \<Rightarrow> 'k frame" where
  "loc_set f k s =
     f\<lparr> columns := AList.update k (map (\<lambda>ds. (ds, series_get s ds)) (index f)) (columns f) \<rparr>"

subsection \<open>\<^verbatim>\<open>calculate_contention_overlap\<close>\<close>

definition incomplete_message :: "int \<Rightarrow> string \<Rightarrow> string" where
  "incomplete_message numnode cont =
     ''incomplete dataset for primary_nodes='' @ str_int numnode @ '' contention='' @ cont"

text \<open>The frame \<^verbatim>\<open>overlaps\<close> as created: every cell NaN.\<close>

definition empty_overlaps :: "row list \<Rightarrow> (int \<times> string \<times> string) frame" where
  "empty_overlaps df =
     (let idx = unique (map dataset_id df)
      in \<lparr> index = idx,
           columns = map (\<lambda>k. (k, map (\<lambda>ds. (ds, NaN)) idx))
             (concat (map (\<lambda>n. concat (map (\<lambda>c. map (\<lambda>t. (n, c, t))
                  [''overlapping'', ''non-overlapping'', ''total''])
                (unique (map contention df))))
              (sort (unique (map primary_nodes df))))) \<rparr>)"

text \<open>The body of the two nested loops, for one \<open>(numnode, contention)\<close>.\<close>

definition overlap_body ::
  "(string \<times> int \<times> string \<times> string) frame \<Rightarrow> int \<times> string \<Rightarrow>
   (int \<times> string \<times> string) frame \<Rightarrow> py_error + (int \<times> string \<times> string) frame" where
  "overlap_body pv p ov =
     (case p of (numnode, cont) \<Rightarrow>
        (case getitem3 pv ''end'' numnode cont of
           Inl e \<Rightarrow> Inl (IncompleteDatasetError (incomplete_message numnode cont) numnode cont)
         | Inr ends \<Rightarrow>
        (case getitem3 pv ''start'' numnode cont of
           Inl e \<Rightarrow> Inl (IncompleteDatasetError (incomplete_message numnode cont) numnode cont)
         | Inr starts \<Rightarrow>
           (let ov1 = loc_set ov (numnode, cont, ''overlapping'')
                        (series_apply clamp0 (series_sub (min_axis1 ends) (max_axis1 starts)));
                ov2 = loc_set ov1 (numnode, cont, ''total'')
                        (series_sub (max_axis1 ends) (min_axis1 starts))
            in (case loc_get ov2 (numnode, cont, ''total'') of
                  Inl e \<Rightarrow> Inl e
                | Inr tot \<Rightarrow>
               (case loc_get ov2 (numnode, cont, ''overlapping'') of
                  Inl e \<Rightarrow> Inl e
                | Inr ovl \<Rightarrow>
                    Inr (loc_set ov2 (numnode, cont, ''non-overlapping'') (series_sub tot ovl))))))))"

fun overlap_loop ::
  "(string \<times> int \<times> string \<times> string) frame \<Rightarrow> (int \<times> string) list \<Rightarrow>
   (int \<times> string \<times> string) frame \<Rightarrow> py_error + (int \<times> string \<times> string) frame" where
  "overlap_loop pv [] ov = Inr ov"
| "overlap_loop pv (p # ps) ov =
     (case overlap_body pv p ov of Inl e \<Rightarrow> Inl e | Inr ov' \<Rightarrow> overlap_loop pv ps ov')"

text \<open>
  The loops run over the distinct \<open>primary_nodes\<close> of the pivot's columns and, inside,
  over the distinct \<open>contention\<close> values of the pivot's columns, each in column order.
\<close>

definition loop_pairs :: "(string \<times> int \<times> string \<times> string) frame \<Rightarrow> (int \<times> string) list" where
  "loop_pairs pv =
     List.product (unique (map (\<lambda>((v, n, c, w), s). n) (columns pv)))
                  (unique (map (\<lambda>((v, n, c, w), s). c) (columns pv)))"

definition calculate_contention_overlap ::
  "row list \<Rightarrow> py_error + (int \<times> string \<times> string) frame" where
  "calculate_contention_overlap df =
     (let pivoted_df = pivot_table df
      in overlap_loop pivoted_df (loop_pairs pivoted_df) (empty_overlaps df))"

text \<open>A cell of the overlap table, when the column and the row exist.\<close>

definition cell :: "(int \<times> string \<times> string) frame \<Rightarrow> string \<Rightarrow> int \<Rightarrow> string \<Rightarrow> string \<Rightarrow> pyfloat option" where
  "cell ov ds n c t = (case map_of (columns ov) (n, c, t) of None \<Rightarrow> None | Some s \<Rightarrow> map_of s ds)"

definition workloads :: "row list \<Rightarrow> int \<Rightarrow> string \<Rightarrow> string list" where
  "workloads df n c = map (\<lambda>(n', c', w). w) (filter (\<lambda>(n', c', w). n' = n \<and> c' = c) (pivot_keys df))"

definition means :: "row list \<Rightarrow> string \<Rightarrow> string \<Rightarrow> int \<Rightarrow> string \<Rightarrow> pyfloat list" where
  "means df v ds n c = map (\<lambda>w. group_mean df v ds (n, c, w)) (workloads df n c)"

definition overlapping_value :: "row list \<Rightarrow> string \<Rightarrow> int \<Rightarrow> string \<Rightarrow> pyfloat" where
  "overlapping_value df ds n c =
     clamp0 (fsub (nanmin (means df ''end'' ds n c)) (nanmax (means df ''start'' ds n c)))"

definition total_value :: "row list \<Rightarrow> string \<Rightarrow> int \<Rightarrow> string \<Rightarrow> pyfloat" where
  "total_value df ds n c =
     fsub (nanmax (means df ''end'' ds n c)) (nanmin (means df ''start'' ds n c))"

definition body_columns ::
  "row list \<Rightarrow> int \<Rightarrow> string \<Rightarrow> string list \<Rightarrow> ((int \<times> string \<times> string) \<times> series) list
   \<Rightarrow> ((int \<times> string \<times> string) \<times> series) list" where
  "body_columns df n c idx cols =
     AList.update (n, c, ''non-overlapping'')
       (map (\<lambda>ds. (ds, fsub (total_value df ds n c) (overlapping_value df ds n c))) idx)
       (AList.update (n, c, ''total'') (map (\<lambda>ds. (ds, total_value df ds n c)) idx)
          (AList.update (n, c, ''overlapping'') (map (\<lambda>ds. (ds, overlapping_value df ds n c)) idx) cols))"

definition overlap_value :: "row list \<Rightarrow> string \<Rightarrow> int \<Rightarrow> string \<Rightarrow> string \<Rightarrow> pyfloat" where
  "overlap_value df ds n c t =
     (if t = ''overlapping'' then overlapping_value df ds n c
      else if t = ''total'' then total_value df ds n c
      else fsub (total_value df ds n c) (overlapping_value df ds n c))"

definition time_names :: "string set" where
  "time_names = {''overlapping'', ''non-overlapping'', ''total''}"

definition complete :: "row list \<Rightarrow> bool" where
  "complete df = (\<forall>n\<in>primary_nodes ` set df. \<forall>c\<in>contention ` set df.
      \<exists>r\<in>set df. primary_nodes r = n \<and> contention r = c)"

definition group_rows :: "row list \<Rightarrow> string \<Rightarrow> int \<Rightarrow> string \<Rightarrow> row list" where
  "group_rows df ds n c = filter (\<lambda>r. dataset_id r = ds \<and> primary_nodes r = n \<and> contention r = c) df"



definition mk_row :: "string \<Rightarrow> int \<Rightarrow> string \<Rightarrow> string \<Rightarrow> rat \<Rightarrow> rat \<Rightarrow> row" where
  "mk_row ds n c w s e =
     \<lparr> dataset_id = ds, primary_nodes = n, contention = c, workload_id = w, start = s, endtime = e \<rparr>"

subsection \<open>\<^verbatim>\<open>validate_contention_dataset\<close>\<close>

























lemma unique_set [simp]: "set (unique xs) = set xs"
  by (induction xs rule: unique.induct) auto

lemma set_pivot_index [simp]: "set (pivot_index df) = dataset_id ` set df"
  by (simp add: pivot_index_def)

lemma set_pivot_keys [simp]:
  "set (pivot_keys df) = (\<lambda>r. (primary_nodes r, contention r, workload_id r)) ` set df"
  by (simp add: pivot_keys_def)

lemma set_workloads:
  "set (workloads df n c) = {workload_id r | r. r \<in> set df \<and> primary_nodes r = n \<and> contention r = c}"
  unfolding workloads_def by (force simp: image_iff)

lemma workloads_Nil:
  "workloads df n c = [] \<longleftrightarrow> \<not> (\<exists>r\<in>set df. primary_nodes r = n \<and> contention r = c)"
proof -
  have "workloads df n c = [] \<longleftrightarrow> set (workloads df n c) = {}" by simp
  also have "\<dots> \<longleftrightarrow> \<not> (\<exists>r\<in>set df. primary_nodes r = n \<and> contention r = c)"
    unfolding set_workloads by blast
  finally show ?thesis .
qed

lemma filter_pivot_columns:
  "filter (\<lambda>((v', n', c', w), s). v' = v \<and> n' = n \<and> c' = c)
     (map (\<lambda>k. ((u, k), pivot_column df u k)) ks) =
   (if u = v then map (\<lambda>k. ((u, k), pivot_column df u k)) (filter (\<lambda>(n', c', w). n' = n \<and> c' = c) ks) else [])"
  by (induction ks) auto

lemma getitem3_pivot:
  assumes "v = ''end'' \<or> v = ''start''"
  shows "getitem3 (pivot_table df) v n c =
     (if workloads df n c = [] then Inl KeyError
      else Inr \<lparr> index = pivot_index df,
                 columns = map (\<lambda>w. (w, pivot_column df v (n, c, w))) (workloads df n c) \<rparr>)"
proof -
  let ?P = "\<lambda>((v', n', c', w), s). v' = v \<and> n' = (n::int) \<and> c' = (c::string)"
  let ?ks = "filter (\<lambda>(n', c', w). n' = n \<and> c' = c) (pivot_keys df)"
  have sel: "filter ?P (columns (pivot_table df)) = map (\<lambda>k. ((v, k), pivot_column df v k)) ?ks"
    using assms by (auto simp: pivot_table_def filter_pivot_columns)
  have nil: "(map (\<lambda>k. ((v, k), pivot_column df v k)) ?ks = []) = (workloads df n c = [])"
    by (simp add: workloads_def)
  have cols: "map (\<lambda>((v', n', c', w), s). (w, s)) (map (\<lambda>k. ((v, k), pivot_column df v k)) ?ks)
      = map (\<lambda>w. (w, pivot_column df v (n, c, w))) (workloads df n c)"
    by (auto simp: workloads_def comp_def case_prod_unfold intro!: map_cong)
  have idx: "index (pivot_table df) = pivot_index df" by (simp add: pivot_table_def)
  show ?thesis
    unfolding getitem3_def Let_def sel nil cols idx by simp
qed

lemma series_get_map:
  "series_get (map (\<lambda>ds. (ds, f ds)) idx) ds = (if ds \<in> set idx then f ds else NaN)"
  by (simp add: series_get_def map_of_map_restrict restrict_map_def)

lemma min_axis1_pivot:
  "min_axis1 \<lparr> index = pivot_index df, columns = map (\<lambda>w. (w, pivot_column df v (n, c, w))) ws \<rparr> =
   map (\<lambda>ds. (ds, nanmin (map (\<lambda>w. group_mean df v ds (n, c, w)) ws))) (pivot_index df)"
  by (simp add: min_axis1_def pivot_column_def series_get_map comp_def cong: map_cong)

lemma max_axis1_pivot:
  "max_axis1 \<lparr> index = pivot_index df, columns = map (\<lambda>w. (w, pivot_column df v (n, c, w))) ws \<rparr> =
   map (\<lambda>ds. (ds, nanmax (map (\<lambda>w. group_mean df v ds (n, c, w)) ws))) (pivot_index df)"
  by (simp add: max_axis1_def pivot_column_def series_get_map comp_def cong: map_cong)

lemma series_sub_map:
  "series_sub (map (\<lambda>ds. (ds, f ds)) idx) (map (\<lambda>ds. (ds, g ds)) idx) =
   map (\<lambda>ds. (ds, fsub (f ds) (g ds))) idx"
  by (simp add: series_sub_def series_get_map comp_def cong: map_cong)

lemma series_apply_map:
  "series_apply h (map (\<lambda>ds. (ds, f ds)) idx) = map (\<lambda>ds. (ds, h (f ds))) idx"
  by (simp add: series_apply_def comp_def)

lemma align_map:
  assumes "set idx \<subseteq> set idx'"
  shows "map (\<lambda>ds. (ds, series_get (map (\<lambda>ds. (ds, f ds)) idx') ds)) idx = map (\<lambda>ds. (ds, f ds)) idx"
  using assms by (auto simp: series_get_map)

lemma overlap_body_pivot:
  assumes wl: "workloads df n c \<noteq> []" and idx: "set (index ov) \<subseteq> dataset_id ` set df"
  shows "overlap_body (pivot_table df) (n, c) ov =
           Inr (ov\<lparr> columns := body_columns df n c (index ov) (columns ov) \<rparr>)"
proof -
  have sub: "set (index ov) \<subseteq> set (pivot_index df)" using idx by simp
  have a1: "map (\<lambda>ds. (ds, series_get (map (\<lambda>ds. (ds, clamp0 (fsub (nanmin (means df ''end'' ds n c)) (nanmax (means df ''start'' ds n c))))) (pivot_index df)) ds)) (index ov)
      = map (\<lambda>ds. (ds, overlapping_value df ds n c)) (index ov)"
    unfolding overlapping_value_def by (rule align_map [OF sub])
  have a2: "map (\<lambda>ds. (ds, series_get (map (\<lambda>ds. (ds, fsub (nanmax (means df ''end'' ds n c)) (nanmin (means df ''start'' ds n c)))) (pivot_index df)) ds)) (index ov)
      = map (\<lambda>ds. (ds, total_value df ds n c)) (index ov)"
    unfolding total_value_def by (rule align_map [OF sub])
  have a3: "map (\<lambda>ds. (ds, series_get (map (\<lambda>ds. (ds, fsub (total_value df ds n c) (overlapping_value df ds n c))) (index ov)) ds)) (index ov)
      = map (\<lambda>ds. (ds, fsub (total_value df ds n c) (overlapping_value df ds n c))) (index ov)"
    by (rule align_map) simp
  show ?thesis
    using wl
    by (simp add: overlap_body_def getitem3_pivot min_axis1_pivot max_axis1_pivot
        series_sub_map series_apply_map loc_set_def loc_get_def Let_def update_conv'
        means_def [symmetric] a1 a2 a3 body_columns_def)
qed

lemma map_of_body_columns:
  "map_of (body_columns df n c idx cols) (n', c', t) =
     (if (n', c') = (n, c) \<and> t \<in> time_names
      then Some (map (\<lambda>ds. (ds, overlap_value df ds n c t)) idx)
      else map_of cols (n', c', t))"
  by (auto simp: body_columns_def update_conv' overlap_value_def time_names_def)

lemma overlap_body_missing:
  assumes "workloads df n c = []"
  shows "overlap_body (pivot_table df) (n, c) ov =
           Inl (IncompleteDatasetError (incomplete_message n c) n c)"
  using assms by (simp add: overlap_body_def getitem3_pivot)

lemma overlap_loop_pivot:
  assumes "\<forall>(n, c)\<in>set ps. workloads df n c \<noteq> []"
    and "set (index ov) \<subseteq> dataset_id ` set df"
  shows "\<exists>ov'. overlap_loop (pivot_table df) ps ov = Inr ov' \<and> index ov' = index ov \<and>
           (\<forall>n c t. map_of (columns ov') (n, c, t) =
              (if (n, c) \<in> set ps \<and> t \<in> time_names
               then Some (map (\<lambda>ds. (ds, overlap_value df ds n c t)) (index ov))
               else map_of (columns ov) (n, c, t)))"
  using assms
proof (induction ps arbitrary: ov)
  case Nil
  then show ?case by simp
next
  case (Cons p ps)
  obtain n c where p: "p = (n, c)" by (cases p)
  let ?ov1 = "ov\<lparr> columns := body_columns df n c (index ov) (columns ov) \<rparr>"
  from Cons.prems p have wl: "workloads df n c \<noteq> []" by auto
  have body: "overlap_body (pivot_table df) p ?ov1 = overlap_body (pivot_table df) p ?ov1" ..
  have step: "overlap_body (pivot_table df) p ov = Inr ?ov1"
    unfolding p by (rule overlap_body_pivot [OF wl Cons.prems(2)])
  have "\<forall>(n, c)\<in>set ps. workloads df n c \<noteq> []" using Cons.prems(1) by auto
  moreover have "set (index ?ov1) \<subseteq> dataset_id ` set df" using Cons.prems(2) by simp
  ultimately obtain ov' where
    run: "overlap_loop (pivot_table df) ps ?ov1 = Inr ov'" and
    idx: "index ov' = index ?ov1" and
    cols: "\<And>n' c' t. map_of (columns ov') (n', c', t) =
              (if (n', c') \<in> set ps \<and> t \<in> time_names
               then Some (map (\<lambda>ds. (ds, overlap_value df ds n' c' t)) (index ?ov1))
               else map_of (columns ?ov1) (n', c', t))"
    using Cons.IH [of ?ov1] by blast
  show ?case
  proof (intro exI conjI allI)
    show "overlap_loop (pivot_table df) (p # ps) ov = Inr ov'" by (simp add: step run)
    show "index ov' = index ov" using idx by simp
    fix n' c' t
    show "map_of (columns ov') (n', c', t) =
          (if (n', c') \<in> set (p # ps) \<and> t \<in> time_names
           then Some (map (\<lambda>ds. (ds, overlap_value df ds n' c' t)) (index ov))
           else map_of (columns ov) (n', c', t))"
      unfolding cols p by (auto simp: map_of_body_columns)
  qed
qed

lemma overlap_loop_missing:
  assumes "\<forall>(n, c)\<in>set ps. workloads df n c \<noteq> []"
    and "workloads df n c = []"
    and "set (index ov) \<subseteq> dataset_id ` set df"
  shows "overlap_loop (pivot_table df) (ps @ (n, c) # qs) ov =
           Inl (IncompleteDatasetError (incomplete_message n c) n c)"
  using assms
proof (induction ps arbitrary: ov)
  case Nil
  then show ?case by (simp add: overlap_body_missing)
next
  case (Cons p ps)
  obtain n' c' where p: "p = (n', c')" by (cases p)
  from Cons.prems p have wl: "workloads df n' c' \<noteq> []" by auto
  have step: "overlap_body (pivot_table df) p ov =
      Inr (ov\<lparr> columns := body_columns df n' c' (index ov) (columns ov) \<rparr>)"
    unfolding p by (rule overlap_body_pivot [OF wl Cons.prems(3)])
  show ?case
    using Cons.prems by (simp add: step Cons.IH)
qed

lemma set_loop_pairs:
  "set (loop_pairs (pivot_table df)) = primary_nodes ` set df \<times> contention ` set df"
proof -
  have n: "set (map (\<lambda>((v, n, c, w), s). n) (columns (pivot_table df))) = primary_nodes ` set df"
    by (force simp: pivot_table_def image_iff)
  have c: "set (map (\<lambda>((v, n, c, w), s). c) (columns (pivot_table df))) = contention ` set df"
    by (force simp: pivot_table_def image_iff)
  show ?thesis
    unfolding loop_pairs_def set_product unique_set n c ..
qed

lemma index_empty_overlaps: "index (empty_overlaps df) = unique (map dataset_id df)"
  by (simp add: empty_overlaps_def Let_def)

lemma complete_iff:
  "complete df \<longleftrightarrow> (\<forall>(n, c)\<in>set (loop_pairs (pivot_table df)). workloads df n c \<noteq> [])"
  unfolding set_loop_pairs complete_def workloads_Nil by auto

lemma calculate_complete:
  assumes "complete df"
  shows "\<exists>ov. calculate_contention_overlap df = Inr ov \<and>
           index ov = unique (map dataset_id df) \<and>
           (\<forall>ds\<in>dataset_id ` set df. \<forall>n\<in>primary_nodes ` set df. \<forall>c\<in>contention ` set df.
              \<forall>t\<in>time_names. cell ov ds n c t = Some (overlap_value df ds n c t))"
proof -
  have wl: "\<forall>(n, c)\<in>set (loop_pairs (pivot_table df)). workloads df n c \<noteq> []"
    using assms by (simp add: complete_iff)
  have idx: "set (index (empty_overlaps df)) \<subseteq> dataset_id ` set df"
    by (simp add: index_empty_overlaps)
  from overlap_loop_pivot [OF wl idx] obtain ov where
    run: "overlap_loop (pivot_table df) (loop_pairs (pivot_table df)) (empty_overlaps df) = Inr ov"
    and i: "index ov = index (empty_overlaps df)"
    and cols: "\<And>n c t. map_of (columns ov) (n, c, t) =
        (if (n, c) \<in> set (loop_pairs (pivot_table df)) \<and> t \<in> time_names
         then Some (map (\<lambda>ds. (ds, overlap_value df ds n c t)) (index (empty_overlaps df)))
         else map_of (columns (empty_overlaps df)) (n, c, t))"
    by blast
  show ?thesis
  proof (intro exI conjI ballI)
    show "calculate_contention_overlap df = Inr ov"
      by (simp add: calculate_contention_overlap_def run)
    show "index ov = unique (map dataset_id df)" using i by (simp add: index_empty_overlaps)
    fix ds n c t
    assume "ds \<in> dataset_id ` set df" "n \<in> primary_nodes ` set df" "c \<in> contention ` set df"
      "t \<in> time_names"
    then show "cell ov ds n c t = Some (overlap_value df ds n c t)"
      by (simp add: cell_def cols set_loop_pairs index_empty_overlaps map_of_map_restrict)
  qed
qed

lemma calculate_incomplete:
  assumes "\<not> complete df"
  shows "\<exists>n c. n \<in> primary_nodes ` set df \<and> c \<in> contention ` set df \<and>
           \<not> (\<exists>r\<in>set df. primary_nodes r = n \<and> contention r = c) \<and>
           calculate_contention_overlap df =
             Inl (IncompleteDatasetError (incomplete_message n c) n c)"
proof -
  let ?ps = "loop_pairs (pivot_table df)"
  from assms have "\<exists>p\<in>set ?ps. workloads df (fst p) (snd p) = []"
    unfolding complete_iff by fastforce
  then obtain ys p zs where split: "?ps = ys @ p # zs" and bad: "workloads df (fst p) (snd p) = []"
    and good: "\<forall>y\<in>set ys. workloads df (fst y) (snd y) \<noteq> []"
    using split_list_first_prop [of ?ps "\<lambda>p. workloads df (fst p) (snd p) = []"] by blast
  obtain n c where p: "p = (n, c)" by (cases p)
  have "p \<in> set ?ps" using split by simp
  then have mem: "n \<in> primary_nodes ` set df" "c \<in> contention ` set df"
    unfolding set_loop_pairs p by auto
  have g: "\<forall>(n, c)\<in>set ys. workloads df n c \<noteq> []" using good by auto
  have idx: "set (index (empty_overlaps df)) \<subseteq> dataset_id ` set df"
    by (simp add: index_empty_overlaps)
  have "overlap_loop (pivot_table df) (ys @ (n, c) # zs) (empty_overlaps df) =
      Inl (IncompleteDatasetError (incomplete_message n c) n c)"
    using bad by (intro overlap_loop_missing [OF g _ idx]) (simp add: p)
  then have "calculate_contention_overlap df =
      Inl (IncompleteDatasetError (incomplete_message n c) n c)"
    using split by (simp add: calculate_contention_overlap_def p)
  moreover have "\<not> (\<exists>r\<in>set df. primary_nodes r = n \<and> contention r = c)"
    using bad by (simp add: p workloads_Nil)
  ultimately show ?thesis using mem by blast
qed




















text \<open>
  Claim C6, as stated, fails: a table whose only group has a primary row and no
  secondary row raises nothing.  \<^verbatim>\<open>min(axis=1)\<close> and \<^verbatim>\<open>max(axis=1)\<close> skip the
  missing column, and the overlap is computed from the primary row alone.
\<close>

theorem incomplete_single_role_counterexample:
  "filter (\<lambda>r. workload_id r = ''secondary'')
     (group_rows [mk_row ''A'' 1 ''noisy'' ''primary'' 0 100] ''A'' 1 ''noisy'') = [] \<and>
   calculate_contention_overlap [mk_row ''A'' 1 ''noisy'' ''primary'' 0 100] =
     Inr \<lparr> index = [''A''],
           columns = [((1, ''noisy'', ''overlapping''), [(''A'', Num 100)]),
                      ((1, ''noisy'', ''non-overlapping''), [(''A'', Num 0)]),
                      ((1, ''noisy'', ''total''), [(''A'', Num 100)])] \<rparr>"
  by code_simp

text \<open>
  Claim C6, amended.  \<^verbatim>\<open>calculate_contention_overlap\<close> fails exactly when some
  \<open>primary_nodes\<close> value and some \<open>contention\<close> value of the table occur together
  in no row; the error is \<open>IncompleteDatasetError\<close>, its message and attributes naming
  such a pair (and no \<open>dataset_id\<close>).
\<close>

theorem incomplete_error:
  "((\<exists>e. calculate_contention_overlap df = Inl e) \<longleftrightarrow> \<not> complete df) \<and>
   (\<forall>e. calculate_contention_overlap df = Inl e \<longrightarrow>
      (\<exists>n c. e = IncompleteDatasetError (incomplete_message n c) n c \<and>
             n \<in> primary_nodes ` set df \<and> c \<in> contention ` set df \<and>
             \<not> (\<exists>r\<in>set df. primary_nodes r = n \<and> contention r = c)))"
proof (intro conjI allI impI iffI)
  assume "\<exists>e. calculate_contention_overlap df = Inl e"
  then show "\<not> complete df" using calculate_complete [of df] by auto
next
  assume "\<not> complete df"
  from calculate_incomplete [OF this] show "\<exists>e. calculate_contention_overlap df = Inl e" by blast
next
  fix e assume e: "calculate_contention_overlap df = Inl e"
  then have "\<not> complete df" using calculate_complete [of df] by auto
  from calculate_incomplete [OF this] e
  show "\<exists>n c. e = IncompleteDatasetError (incomplete_message n c) n c \<and>
             n \<in> primary_nodes ` set df \<and> c \<in> contention ` set df \<and>
             \<not> (\<exists>r\<in>set df. primary_nodes r = n \<and> contention r = c)" by auto
qed

theorem incomplete_error_witness:
  "calculate_contention_overlap
     [mk_row ''A'' 1 ''quiet'' ''primary'' 0 100, mk_row ''A'' 1 ''quiet'' ''secondary'' 100 200,
      mk_row ''A'' 2 ''noisy'' ''primary'' 300 400, mk_row ''A'' 2 ''noisy'' ''secondary'' 300 400] =
     Inl (IncompleteDatasetError ''incomplete dataset for primary_nodes=1 contention=noisy'' 1 ''noisy'') \<and>
   \<not> complete
     [mk_row ''A'' 1 ''quiet'' ''primary'' 0 100, mk_row ''A'' 1 ''quiet'' ''secondary'' 100 200,
      mk_row ''A'' 2 ''noisy'' ''primary'' 300 400, mk_row ''A'' 2 ''noisy'' ''secondary'' 300 400]"
proof -
  let ?df = "[mk_row ''A'' 1 ''quiet'' ''primary'' 0 100, mk_row ''A'' 1 ''quiet'' ''secondary'' 100 200,
      mk_row ''A'' 2 ''noisy'' ''primary'' 300 400, mk_row ''A'' 2 ''noisy'' ''secondary'' 300 400]"
  have run: "calculate_contention_overlap ?df =
     Inl (IncompleteDatasetError ''incomplete dataset for primary_nodes=1 contention=noisy'' 1 ''noisy'')"
    by code_simp
  with incomplete_error [of ?df] show ?thesis by blast
qed


























end
